theory Spec2Isabelle
  imports Main "HOL-Library.Sublist"
begin

section \<open>The project scaffolder: index.ts and create-app\<close>

text \<open>
  The program runs on Node: every effect it has is a call into the platform (the file
  system, the process, a child process, the copy library, the name-validation library).
  The model threads an explicit \<open>world\<close> through the calls and takes what the platform
  answers from a \<open>platform\<close> record, so that every theorem holds for whatever the
  platform answers. Strings are \<open>char list\<close>s, a character being a byte of the text.
  Progress messages on standard output (\<open>console.log\<close>) are presentation only and are
  not part of the model; the messages on standard error (\<open>console.error\<close>) are.
\<close>

subsection \<open>Outcomes of an operation\<close>

text \<open>
  What a promise is rejected with, or a synchronous call throws: the object
  \<open>{ command }\<close> that \<open>install\<close> builds, or an error of the platform.
\<close>

datatype reason = Command_failed string | Sys_error string

text \<open>
  An operation resolves with a value, rejects (or throws) with a reason, ends the whole
  process through \<open>process.exit\<close>, or never settles.
\<close>

datatype 'a outcome = Resolved 'a | Rejected reason | Exited int | Pending

subsection \<open>The platform and the world\<close>

type_synonym path = string

text \<open>How a spawned child ends: the \<open>close\<close> event with its exit code (\<open>null\<close> when a
  signal killed it), or no \<open>close\<close> event at all. The promise of \<open>install\<close> listens to
  \<open>close\<close> only, so it settles in the first case and stays pending in the second.\<close>

datatype child = Closes "int option" | Never_closes

text \<open>The result object of the library \<open>validate-npm-package-name\<close>; \<open>errors\<close> and
  \<open>warnings\<close> may be absent.\<close>

record name_validation =
  validForNewPackages :: bool
  errors :: "string list option"
  warnings :: "string list option"

record platform =
  os_EOL :: string
  module_dirname :: path
  path_resolve :: "path \<Rightarrow> string \<Rightarrow> path"
  path_dirname :: "path \<Rightarrow> path"
  path_basename :: "path \<Rightarrow> string"
  path_join :: "string list \<Rightarrow> path"
  string_trim :: "string \<Rightarrow> string"
  validateProjectName :: "string \<Rightarrow> name_validation"
  chalk_red :: "string \<Rightarrow> string"
  chalk_red_bold :: "string \<Rightarrow> string"
  access_W_OK :: "path \<Rightarrow> string option"
  mkdir_recursive :: "path \<Rightarrow> string option"
  readdirSync :: "path \<Rightarrow> string + string list"
  chdir :: "path \<Rightarrow> string option"
  writeFileSync :: "path \<Rightarrow> string option"
  child_close :: "string list \<Rightarrow> child"
  child_files :: "string list \<Rightarrow> (path \<rightharpoonup> string) \<Rightarrow> (path \<rightharpoonup> string)"
  glob_files :: "string \<Rightarrow> path \<Rightarrow> (path \<times> string) list"
  cpy_error :: "(nat \<times> string) option"

text \<open>
  \<^item> \<open>path_resolve cwd p\<close> is \<open>path.resolve(p)\<close> in a process whose working directory is
    \<open>cwd\<close>; \<open>module_dirname\<close> is \<open>__dirname\<close>.
  \<^item> \<open>string_trim s\<close> is \<open>s.trim()\<close>: what counts as white space (the Unicode spaces and
    line terminators) is the platform's, as the representation of the characters is.
  \<^item> \<open>access_W_OK\<close>, \<open>mkdir_recursive\<close>, \<open>chdir\<close> and \<open>writeFileSync\<close> give the error the
    call fails with at a path, \<open>None\<close> when it succeeds; \<open>readdirSync\<close> gives the error or
    the entries.
  \<^item> \<open>child_close args\<close> is how the child spawned with \<open>args\<close> ends and \<open>child_files args\<close>
    what it has done to the files by then.
  \<^item> \<open>glob_files pattern dir\<close> lists the files under \<open>dir\<close> that the pattern matches, each
    with its relative path and its content; \<open>cpy_error = Some (n, e)\<close> makes the copy
    fail with \<open>e\<close> after \<open>n\<close> files.
\<close>

datatype event =
    Access path
  | Mkdir path
  | Readdir path
  | Chdir path
  | Write_file path string
  | Spawn string "string list" "(string \<times> string) list"
  | Child_closed "int option"
  | Cpy string path path

record world =
  files :: "path \<rightharpoonup> string"
  cwd :: path
  trace :: "event list"
  stderr :: "string list"

type_synonym 'a prog = "world \<Rightarrow> 'a outcome \<times> world"

definition emit :: "event \<Rightarrow> world \<Rightarrow> world" where
  "emit e w = w\<lparr>trace := trace w @ [e]\<rparr>"

definition console_error :: "string \<Rightarrow> world \<Rightarrow> world" where
  "console_error line w = w\<lparr>stderr := stderr w @ [line]\<rparr>"

text \<open>Sequencing, as \<open>await\<close> and the semicolon do it: the rest runs only when the first
  operation resolved.\<close>

definition bind :: "'a prog \<Rightarrow> ('a \<Rightarrow> 'b prog) \<Rightarrow> 'b prog" where
  "bind m f w =
     (case m w of
        (Resolved a, w') \<Rightarrow> f a w'
      | (Rejected r, w') \<Rightarrow> (Rejected r, w')
      | (Exited n, w') \<Rightarrow> (Exited n, w')
      | (Pending, w') \<Rightarrow> (Pending, w'))"

definition process_exit :: "int \<Rightarrow> 'a prog" where
  "process_exit n w = (Exited n, w)"

subsection \<open>Platform calls\<close>

definition of_error :: "string option \<Rightarrow> unit outcome" where
  "of_error r = (case r of None \<Rightarrow> Resolved () | Some e \<Rightarrow> Rejected (Sys_error e))"

definition fs_access :: "platform \<Rightarrow> path \<Rightarrow> unit prog" where
  "fs_access pf directory w = (of_error (access_W_OK pf directory), emit (Access directory) w)"

definition fs_mkdir :: "platform \<Rightarrow> path \<Rightarrow> unit prog" where
  "fs_mkdir pf dir w = (of_error (mkdir_recursive pf dir), emit (Mkdir dir) w)"

definition fs_readdirSync :: "platform \<Rightarrow> path \<Rightarrow> (string list) prog" where
  "fs_readdirSync pf dir w =
     (case readdirSync pf dir of
        Inl e \<Rightarrow> (Rejected (Sys_error e), emit (Readdir dir) w)
      | Inr entries \<Rightarrow> (Resolved entries, emit (Readdir dir) w))"

definition process_chdir :: "platform \<Rightarrow> path \<Rightarrow> unit prog" where
  "process_chdir pf dir w =
     (case chdir pf dir of
        Some e \<Rightarrow> (Rejected (Sys_error e), emit (Chdir dir) w)
      | None \<Rightarrow> (Resolved (), emit (Chdir dir) (w\<lparr>cwd := dir\<rparr>)))"

text \<open>\<open>fs.writeFileSync(file, data)\<close> replaces the file when it exists.\<close>

definition fs_writeFileSync :: "platform \<Rightarrow> path \<Rightarrow> string \<Rightarrow> unit prog" where
  "fs_writeFileSync pf file data w =
     (case writeFileSync pf file of
        Some e \<Rightarrow> (Rejected (Sys_error e), emit (Write_file file data) w)
      | None \<Rightarrow> (Resolved (), emit (Write_file file data) (w\<lparr>files := (files w)(file \<mapsto> data)\<rparr>)))"

subsection \<open>isWriteable\<close>

text \<open>\<open>try { await access; return true } catch { return false }\<close>\<close>

definition isWriteable :: "platform \<Rightarrow> path \<Rightarrow> bool prog" where
  "isWriteable pf directory w =
     (case fs_access pf directory w of
        (Resolved _, w') \<Rightarrow> (Resolved True, w')
      | (Rejected err, w') \<Rightarrow> (Resolved False, w')
      | (Exited n, w') \<Rightarrow> (Exited n, w')
      | (Pending, w') \<Rightarrow> (Pending, w'))"

subsection \<open>install\<close>

text \<open>\<open>Array.prototype.join\<close>\<close>

fun array_join :: "string \<Rightarrow> string list \<Rightarrow> string" where
  "array_join sep [] = []"
| "array_join sep [x] = x"
| "array_join sep (x # y # ys) = x @ sep @ array_join sep (y # ys)"

text \<open>The argument list \<open>args\<close>: it stays empty unless \<open>dependencies\<close> is a non-empty
  array.\<close>

definition install_args :: "string list option \<Rightarrow> bool \<Rightarrow> string list" where
  "install_args dependencies devDependencies =
     (case dependencies of
        None \<Rightarrow> []
      | Some ds \<Rightarrow>
          if ds \<noteq> []
          then [''install'', ''--save-exact'']
               @ [if devDependencies then ''--save-dev'' else ''--save'']
               @ ds
          else [])"

definition spawn_env :: "(string \<times> string) list" where
  "spawn_env = [(''ADBLOCK'', ''1''), (''DISABLE_OPENCOLLECTIVE'', ''1'')]"

definition install :: "platform \<Rightarrow> string list option \<Rightarrow> bool \<Rightarrow> unit prog" where
  "install pf dependencies devDependencies w =
     (let args = install_args dependencies devDependencies;
          w1 = emit (Spawn ''npm'' args spawn_env) w
      in case child_close pf args of
           Never_closes \<Rightarrow> (Pending, w1)
         | Closes code \<Rightarrow>
             (let w2 = emit (Child_closed code) (w1\<lparr>files := child_files pf args (files w1)\<rparr>)
              in if code \<noteq> Some 0
                 then (Rejected (Command_failed (''npm '' @ array_join '' '' args)), w2)
                 else (Resolved (), w2)))"

subsection \<open>The rename option of the template copy\<close>

definition rename :: "string \<Rightarrow> string" where
  "rename name =
     (if name = ''gitignore'' \<or> name = ''eslintrc'' then ''.'' @ name
      else if name = ''README-template.md'' then ''README.md''
      else name)"

text \<open>The rename rules as the specification lists them: a table from source file name
  to destination file name, looked up by the exact name.\<close>

definition rename_rules :: "(string \<times> string) list" where
  "rename_rules =
     [(''gitignore'', ''.gitignore''),
      (''eslintrc'', ''.eslintrc''),
      (''README-template.md'', ''README.md'')]"

definition apply_rename_rules :: "string \<Rightarrow> string" where
  "apply_rename_rules name = (case map_of rename_rules name of Some d \<Rightarrow> d | None \<Rightarrow> name)"

subsection \<open>The template copy\<close>

text \<open>
  The library call \<open>cpy(pattern, destination, {parents: true, overwrite: true, cwd,
  rename})\<close>: every file the pattern matches under \<open>cwd\<close> is copied below the
  destination, in the directory it has in the source tree, under the name the \<open>rename\<close>
  option gives for its base name; a file that exists there is replaced.
\<close>

definition cpy_destination :: "platform \<Rightarrow> (string \<Rightarrow> string) \<Rightarrow> path \<Rightarrow> path \<Rightarrow> path" where
  "cpy_destination pf rename_option destination source =
     path_join pf [destination, path_dirname pf source, rename_option (path_basename pf source)]"

fun copy_all :: "(path \<times> string) list \<Rightarrow> (path \<rightharpoonup> string) \<Rightarrow> (path \<rightharpoonup> string)" where
  "copy_all [] fs = fs"
| "copy_all ((dest, data) # rest) fs = copy_all rest (fs(dest \<mapsto> data))"

definition cpy :: "platform \<Rightarrow> string \<Rightarrow> path \<Rightarrow> path \<Rightarrow> (string \<Rightarrow> string) \<Rightarrow> unit prog" where
  "cpy pf pattern destination dir rename_option w =
     (let copies = map (\<lambda>(source, data). (cpy_destination pf rename_option destination source, data))
                       (glob_files pf pattern dir);
          w1 = emit (Cpy pattern destination dir) w
      in case cpy_error pf of
           None \<Rightarrow> (Resolved (), w1\<lparr>files := copy_all copies (files w1)\<rparr>)
         | Some (n, e) \<Rightarrow>
             (Rejected (Sys_error e), w1\<lparr>files := copy_all (take n copies) (files w1)\<rparr>))"

subsection \<open>JSON.stringify\<close>

text \<open>The values the manifest is made of: strings, booleans and objects, an object with
  its properties in insertion order.\<close>

datatype json = JString string | JBool bool | JObject "(string \<times> json) list"

definition hex_digit :: "nat \<Rightarrow> char" where
  "hex_digit n = ''0123456789abcdef'' ! (n mod 16)"

text \<open>QuoteJSONString, one character at a time: the seven named escapes, \<open>\u00XX\<close> for
  the other control characters, the character itself otherwise.\<close>

definition quote_char :: "char \<Rightarrow> string" where
  "quote_char c =
     (if c = CHR 0x08 then [CHR 0x5C, CHR ''b'']
      else if c = CHR 0x09 then [CHR 0x5C, CHR ''t'']
      else if c = CHR 0x0A then [CHR 0x5C, CHR ''n'']
      else if c = CHR 0x0C then [CHR 0x5C, CHR ''f'']
      else if c = CHR 0x0D then [CHR 0x5C, CHR ''r'']
      else if c = CHR 0x22 then [CHR 0x5C, CHR 0x22]
      else if c = CHR 0x5C then [CHR 0x5C, CHR 0x5C]
      else if (of_char c :: nat) < 32
        then [CHR 0x5C] @ ''u00'' @ [hex_digit (of_char c div 16), hex_digit (of_char c)]
      else [c])"

definition quote :: "string \<Rightarrow> string" where
  "quote s = [CHR 0x22] @ concat (map quote_char s) @ [CHR 0x22]"

text \<open>SerializeJSONProperty and SerializeJSONObject, with the gap and the current
  indentation.\<close>

fun serialize :: "string \<Rightarrow> string \<Rightarrow> json \<Rightarrow> string" where
  "serialize gap indent (JString s) = quote s"
| "serialize gap indent (JBool b) = (if b then ''true'' else ''false'')"
| "serialize gap indent (JObject ps) =
     (if ps = [] then ''{}''
      else if gap = [] then
        ''{''
        @ array_join '','' (map (\<lambda>p. quote (fst p) @ '':'' @ serialize gap (indent @ gap) (snd p)) ps)
        @ ''}''
      else
        ''{'' @ [CHR 0x0A] @ (indent @ gap)
        @ array_join ('','' @ [CHR 0x0A] @ (indent @ gap))
            (map (\<lambda>p. quote (fst p) @ '': '' @ serialize gap (indent @ gap) (snd p)) ps)
        @ [CHR 0x0A] @ indent @ ''}'')"

text \<open>\<open>JSON.stringify(value, null, space)\<close> for a number \<open>space\<close>: the gap is that many
  spaces, ten at most.\<close>

definition JSON_stringify :: "json \<Rightarrow> nat \<Rightarrow> string" where
  "JSON_stringify v space = serialize (replicate (min space 10) CHR '' '') [] v"

subsection \<open>createApp\<close>

definition packageJson :: "string \<Rightarrow> json" where
  "packageJson appName =
     JObject
       [(''name'', JString appName),
        (''version'', JString ''1.0.0''),
        (''private'', JBool True),
        (''scripts'',
           JObject
             [(''start'', JString ''parcel \"./public/index.html\" --open -p 3000''),
              (''build'', JString ''parcel build \"./public/index.html\" --out-dir build'')])]"

definition dependencies :: "string list" where
  "dependencies = [''react'', ''react-dom'']"

definition devDependencies :: "string list" where
  "devDependencies = [''@babel/preset-env'', ''@babel/preset-react'', ''parcel'']"

text \<open>Every object of JavaScript is truthy, the empty array too: this is the value of
  \<open>!!entries\<close> for the array \<open>readdirSync\<close> returns.\<close>

definition truthy_array :: "string list \<Rightarrow> bool" where
  "truthy_array entries = True"

definition createApp :: "platform \<Rightarrow> path \<Rightarrow> unit prog" where
  "createApp pf appPath w0 =
     (let root = path_resolve pf (cwd w0) appPath in
      bind (isWriteable pf (path_dirname pf root)) (\<lambda>writable.
        if \<not> writable then
          (\<lambda>w. process_exit 1
             (console_error ''It is likely you do not have write permissions for this folder.''
               (console_error
                 ''The application path is not writable, please check folder permissions and try again.''
                 w)))
        else
          let appName = path_basename pf root in
          bind (fs_mkdir pf root) (\<lambda>_.
          bind (fs_readdirSync pf root) (\<lambda>entries.
            if \<not> truthy_array entries then process_exit 1
            else
              bind (process_chdir pf root) (\<lambda>_.
              bind (fs_writeFileSync pf (path_join pf [root, ''package.json''])
                      (JSON_stringify (packageJson appName) 2 @ os_EOL pf)) (\<lambda>_.
              bind (if dependencies \<noteq> [] then install pf (Some dependencies) False
                    else (\<lambda>w. (Resolved (), w))) (\<lambda>_.
              bind (if devDependencies \<noteq> [] then install pf (Some devDependencies) True
                    else (\<lambda>w. (Resolved (), w))) (\<lambda>_.
              cpy pf ''**'' root (path_join pf [module_dirname pf, ''..'', ''template'']) rename))))))) w0)"

subsection \<open>index.ts\<close>

record validity =
  valid :: bool
  problems :: "string list option"

definition or_empty :: "string list option \<Rightarrow> string list" where
  "or_empty xs = (case xs of None \<Rightarrow> [] | Some ys \<Rightarrow> ys)"

definition validateNpmName :: "platform \<Rightarrow> string \<Rightarrow> validity" where
  "validateNpmName pf name =
     (let nameValidation = validateProjectName pf name in
      if validForNewPackages nameValidation then \<lparr>valid = True, problems = None\<rparr>
      else \<lparr>valid = False,
            problems = Some (or_empty (errors nameValidation) @ or_empty (warnings nameValidation))\<rparr>)"

definition name_error_header :: "platform \<Rightarrow> string \<Rightarrow> string" where
  "name_error_header pf projectName =
     ''Could not create a project called ''
     @ chalk_red pf (''\"'' @ projectName @ ''\"'')
     @ '' because of npm naming restrictions:''"

definition name_error_line :: "platform \<Rightarrow> string \<Rightarrow> string" where
  "name_error_line pf p = ''    '' @ chalk_red_bold pf ''*'' @ '' '' @ p"

definition run :: "platform \<Rightarrow> string \<Rightarrow> unit prog" where
  "run pf argument w =
     (let projectPath = string_trim pf argument in
      if projectPath = [] then process_exit 1 w
      else
        let resolvedProjectPath = path_resolve pf (cwd w) projectPath;
            projectName = path_basename pf resolvedProjectPath;
            v = validateNpmName pf projectName
        in if \<not> valid v then
             (let w1 = console_error (name_error_header pf projectName) w in
              case problems v of
                None \<Rightarrow> (Rejected (Sys_error ''TypeError''), w1)
              | Some ps \<Rightarrow>
                  process_exit 1 (foldl (\<lambda>w' p. console_error (name_error_line pf p) w') w1 ps))
           else createApp pf resolvedProjectPath w)"

text \<open>The exit status of the process: what \<open>process.exit\<close> was called with, 1 from the
  \<open>catch\<close> handler when \<open>run\<close> rejects, 0 when it resolves; none while it is pending.\<close>

definition exit_status :: "platform \<Rightarrow> string \<Rightarrow> world \<Rightarrow> int option \<times> world" where
  "exit_status pf argument w =
     (case run pf argument w of
        (Resolved _, w') \<Rightarrow> (Some 0, w')
      | (Rejected reason, w') \<Rightarrow> (Some 1, w')
      | (Exited n, w') \<Rightarrow> (Some n, w')
      | (Pending, w') \<Rightarrow> (None, w'))"

subsection \<open>The stages of a scaffold run\<close>

text \<open>
  The platform calls of \<open>createApp\<close> in the order the specification gives its stages:
  the writability check on the parent, the creation of the directory (followed by its
  listing and the change of working directory), the manifest, the install of the
  runtime dependencies (the spawn, then the child's \<open>close\<close>), the install of the
  development dependencies, the template copy.
\<close>

definition exit_code :: "child \<Rightarrow> int option" where
  "exit_code c = (case c of Closes code \<Rightarrow> code | Never_closes \<Rightarrow> None)"

definition stage_order :: "platform \<Rightarrow> path \<Rightarrow> event list" where
  "stage_order pf root =
     [Access (path_dirname pf root),
      Mkdir root,
      Readdir root,
      Chdir root,
      Write_file (path_join pf [root, ''package.json''])
        (JSON_stringify (packageJson (path_basename pf root)) 2 @ os_EOL pf),
      Spawn ''npm'' (install_args (Some dependencies) False) spawn_env,
      Child_closed (exit_code (child_close pf (install_args (Some dependencies) False))),
      Spawn ''npm'' (install_args (Some devDependencies) True) spawn_env,
      Child_closed (exit_code (child_close pf (install_args (Some devDependencies) True))),
      Cpy ''**'' root (path_join pf [module_dirname pf, ''..'', ''template''])]"

text \<open>A stage fails when the platform answers its call with an error, when the child
  it spawns never closes, or when the child closes with a code other than 0.\<close>

fun stage_failed :: "platform \<Rightarrow> event \<Rightarrow> bool" where
  "stage_failed pf (Access d) = (access_W_OK pf d \<noteq> None)"
| "stage_failed pf (Mkdir d) = (mkdir_recursive pf d \<noteq> None)"
| "stage_failed pf (Readdir d) = isl (readdirSync pf d)"
| "stage_failed pf (Chdir d) = (chdir pf d \<noteq> None)"
| "stage_failed pf (Write_file f data) = (writeFileSync pf f \<noteq> None)"
| "stage_failed pf (Spawn command args env) = (child_close pf args = Never_closes)"
| "stage_failed pf (Child_closed code) = (code \<noteq> Some 0)"
| "stage_failed pf (Cpy pattern destination dir) = (cpy_error pf \<noteq> None)"

text \<open>Fail-fast sequencing, as the specification words it: each stage runs, and the next
  one only when it has not failed.\<close>

fun run_stages :: "platform \<Rightarrow> event list \<Rightarrow> event list" where
  "run_stages pf [] = []"
| "run_stages pf (e # es) = e # (if stage_failed pf e then [] else run_stages pf es)"

fun is_write_file :: "event \<Rightarrow> bool" where
  "is_write_file (Write_file file data) = True"
| "is_write_file e = False"

subsection \<open>A sample platform\<close>

text \<open>
  A platform to evaluate the program on: POSIX paths, a line feed as line ending, no
  colours, a name validator that knows two names, a template of four files. Each
  call of the platform succeeds on it; the variants below make one of them fail.
\<close>

fun split_on :: "char \<Rightarrow> string \<Rightarrow> string list" where
  "split_on c [] = [[]]"
| "split_on c (x # xs) =
     (if x = c then [] # split_on c xs
      else (case split_on c xs of [] \<Rightarrow> [[x]] | y # ys \<Rightarrow> (x # y) # ys))"

fun normalize_segments :: "string list \<Rightarrow> string list \<Rightarrow> string list" where
  "normalize_segments [] acc = rev acc"
| "normalize_segments (s # ss) acc =
     (if s = [] \<or> s = ''.'' then normalize_segments ss acc
      else if s = ''..'' then normalize_segments ss (drop 1 acc)
      else normalize_segments ss (s # acc))"

definition posix_normalize :: "path \<Rightarrow> path" where
  "posix_normalize p = ''/'' @ array_join ''/'' (normalize_segments (split_on CHR ''/'' p) [])"

definition posix_resolve :: "path \<Rightarrow> string \<Rightarrow> path" where
  "posix_resolve dir p =
     (if take 1 p = ''/'' then posix_normalize p else posix_normalize (dir @ ''/'' @ p))"

definition posix_basename :: "path \<Rightarrow> string" where
  "posix_basename p = rev (takeWhile (\<lambda>c. c \<noteq> CHR ''/'') (rev p))"

definition posix_dirname :: "path \<Rightarrow> path" where
  "posix_dirname p =
     (if CHR ''/'' \<notin> set p then ''.''
      else let d = rev (drop 1 (dropWhile (\<lambda>c. c \<noteq> CHR ''/'') (rev p)))
           in if d = [] then ''/'' else d)"

definition posix_join :: "string list \<Rightarrow> path" where
  "posix_join ps = posix_normalize (array_join ''/'' ps)"

text \<open>The trim of the sample platform, for arguments in ASCII: it strips tab, line feed,
  vertical tab, form feed, carriage return and space.\<close>

definition is_ascii_space :: "char \<Rightarrow> bool" where
  "is_ascii_space c =
     (c = CHR 0x09 \<or> c = CHR 0x0A \<or> c = CHR 0x0B \<or> c = CHR 0x0C \<or> c = CHR 0x0D \<or> c = CHR 0x20)"

definition sample_trim :: "string \<Rightarrow> string" where
  "sample_trim s = rev (dropWhile is_ascii_space (rev (dropWhile is_ascii_space s)))"

definition sample_validate :: "string \<Rightarrow> name_validation" where
  "sample_validate name =
     (if name = ''NODE_MODULES'' then
        \<lparr>validForNewPackages = False,
         errors = Some [''node_modules is a blacklisted name''],
         warnings = Some [''name can no longer contain capital letters'']\<rparr>
      else if name = ''my-app'' then
        \<lparr>validForNewPackages = True, errors = None, warnings = None\<rparr>
      else
        \<lparr>validForNewPackages = False,
         errors = None,
         warnings = Some [''name is not known to the sample validator'']\<rparr>)"

definition sample_template :: "(path \<times> string) list" where
  "sample_template =
     [(''gitignore'', ''node_modules''),
      (''eslintrc'', ''{}''),
      (''README-template.md'', ''# App''),
      (''public/index.html'', ''<html></html>'')]"

definition sample :: platform where
  "sample =
     \<lparr>os_EOL = [CHR 0x0A],
      module_dirname = ''/opt/cli/dist'',
      path_resolve = posix_resolve,
      path_dirname = posix_dirname,
      path_basename = posix_basename,
      path_join = posix_join,
      string_trim = sample_trim,
      validateProjectName = sample_validate,
      chalk_red = (\<lambda>s. s),
      chalk_red_bold = (\<lambda>s. s),
      access_W_OK = (\<lambda>p. None),
      mkdir_recursive = (\<lambda>p. None),
      readdirSync = (\<lambda>p. Inr []),
      chdir = (\<lambda>p. None),
      writeFileSync = (\<lambda>p. None),
      child_close = (\<lambda>args. Closes (Some 0)),
      child_files = (\<lambda>args fs. fs),
      glob_files = (\<lambda>pattern dir. sample_template),
      cpy_error = None\<rparr>"

definition start :: world where
  "start = \<lparr>files = Map.empty, cwd = ''/home/dev'', trace = [], stderr = []\<rparr>"

text \<open>The sample platform with a package manager that exits with code 1, and with a
  parent directory that cannot be written to.\<close>

definition npm_fails :: platform where
  "npm_fails = sample\<lparr>child_close := (\<lambda>args. Closes (Some 1))\<rparr>"

definition unwritable :: platform where
  "unwritable = sample\<lparr>access_W_OK := (\<lambda>p. Some ''EACCES'')\<rparr>"

section \<open>Properties\<close>

subsection \<open>Auxiliary facts\<close>

lemmas prims = bind_def isWriteable_def fs_access_def fs_mkdir_def fs_readdirSync_def
  process_chdir_def fs_writeFileSync_def install_def cpy_def process_exit_def of_error_def
  emit_def console_error_def truthy_array_def

lemma dependencies_nonempty: "dependencies \<noteq> []" "devDependencies \<noteq> []"
  by (simp_all add: dependencies_def devDependencies_def)

text \<open>The calls \<open>createApp\<close> makes are the stages in their order, up to and including
  the first one that fails; it resolves exactly when none fails; only the writability
  check makes it exit.\<close>

lemma createApp_run:
  fixes pf :: platform and appPath :: path and w :: world
  defines "root \<equiv> path_resolve pf (cwd w) appPath"
  shows "trace (snd (createApp pf appPath w)) = trace w @ run_stages pf (stage_order pf root)
       \<and> (fst (createApp pf appPath w) = Resolved ()
            \<longleftrightarrow> list_all (\<lambda>e. \<not> stage_failed pf e) (stage_order pf root))
       \<and> (access_W_OK pf (path_dirname pf root) = None \<longrightarrow> fst (createApp pf appPath w) \<noteq> Exited n)"
proof -
  note defs = dependencies_nonempty createApp_def prims Let_def stage_order_def exit_code_def root_def
  show ?thesis
  proof (cases "access_W_OK pf (path_dirname pf root)")
    case (Some e)
    then show ?thesis by (simp add: defs)
  next
    case a: None
    show ?thesis
    proof (cases "mkdir_recursive pf root")
      case (Some e)
      with a show ?thesis by (simp add: defs)
    next
      case b: None
      show ?thesis
      proof (cases "readdirSync pf root")
        case (Inl e)
        with a b show ?thesis by (simp add: defs)
      next
        case c: (Inr entries)
        show ?thesis
        proof (cases "chdir pf root")
          case (Some e)
          with a b c show ?thesis by (simp add: defs)
        next
          case d: None
          show ?thesis
          proof (cases "writeFileSync pf (path_join pf [root, ''package.json''])")
            case (Some e)
            with a b c d show ?thesis by (simp add: defs)
          next
            case e: None
            show ?thesis
            proof (cases "child_close pf (install_args (Some dependencies) False)")
              case Never_closes
              with a b c d e show ?thesis by (simp add: defs)
            next
              case f: (Closes code1)
              show ?thesis
              proof (cases "code1 = Some 0")
                case False
                with a b c d e f show ?thesis by (simp add: defs)
              next
                case g: True
                show ?thesis
                proof (cases "child_close pf (install_args (Some devDependencies) True)")
                  case Never_closes
                  with a b c d e f g show ?thesis by (simp add: defs)
                next
                  case h: (Closes code2)
                  show ?thesis
                  proof (cases "code2 = Some 0")
                    case False
                    with a b c d e f g h show ?thesis by (simp add: defs)
                  next
                    case i: True
                    show ?thesis
                    proof (cases "cpy_error pf")
                      case None
                      with a b c d e f g h i show ?thesis by (simp add: defs)
                    next
                      case (Some ne)
                      with a b c d e f g h i show ?thesis
                        by (cases ne) (simp add: defs)
                    qed
                  qed
                qed
              qed
            qed
          qed
        qed
      qed
    qed
  qed
qed



lemma run_stages_prefix: "prefix (run_stages pf es) es"
  by (induction es) simp_all

lemma run_stages_fail_last:
  "Suc i < length (run_stages pf es) \<Longrightarrow> \<not> stage_failed pf (run_stages pf es ! i)"
proof (induction es arbitrary: i)
  case Nil
  then show ?case by simp
next
  case (Cons e es)
  show ?case
  proof (cases i)
    case 0
    with Cons.prems show ?thesis by (auto split: if_splits)
  next
    case (Suc j)
    with Cons show ?thesis by (auto split: if_splits)
  qed
qed

lemma second_spawn_after_first_close:
  assumes "Spawn ''npm'' (install_args (Some devDependencies) True) spawn_env
             \<in> set (run_stages pf (stage_order pf root))"
  shows "\<exists>rest. run_stages pf (stage_order pf root)
           = take 5 (stage_order pf root)
             @ [Spawn ''npm'' (install_args (Some dependencies) False) spawn_env,
                Child_closed (Some 0),
                Spawn ''npm'' (install_args (Some devDependencies) True) spawn_env]
             @ rest"
proof -
  have ne: "install_args (Some devDependencies) True \<noteq> install_args (Some dependencies) False"
    by (simp add: install_args_def dependencies_def devDependencies_def)
  show ?thesis
    using assms ne
    by (auto simp: stage_order_def exit_code_def split: if_splits child.splits)
qed

lemma manifest_text:
  "JSON_stringify (packageJson appName) 2 =
     ''{\<newline>  \"name\": '' @ quote appName @ '',\<newline>''
     @ ''  \"version\": \"1.0.0\",\<newline>''
     @ ''  \"private\": true,\<newline>''
     @ ''  \"scripts\": {\<newline>''
     @ ''    \"start\": \"parcel '' @ [CHR 0x5C] @ ''\"./public/index.html'' @ [CHR 0x5C] @ ''\" --open -p 3000\",\<newline>''
     @ ''    \"build\": \"parcel build '' @ [CHR 0x5C] @ ''\"./public/index.html'' @ [CHR 0x5C] @ ''\" --out-dir build\"\<newline>''
     @ ''  }\<newline>''
     @ ''}''"
  by (simp add: JSON_stringify_def packageJson_def quote_def quote_char_def eval_nat_numeral)

lemma writes_of_run_stages:
  "filter is_write_file (run_stages pf (stage_order pf root)) =
     (if access_W_OK pf (path_dirname pf root) = None \<and> mkdir_recursive pf root = None
         \<and> \<not> isl (readdirSync pf root) \<and> chdir pf root = None
      then [Write_file (path_join pf [root, ''package.json''])
              (JSON_stringify (packageJson (path_basename pf root)) 2 @ os_EOL pf)]
      else [])"
  by (simp add: stage_order_def)

lemma console_error_fields:
  "stderr (console_error l w) = stderr w @ [l]"
  "trace (console_error l w) = trace w"
  "files (console_error l w) = files w"
  "cwd (console_error l w) = cwd w"
  by (simp_all add: console_error_def)

lemma report_lines:
  "stderr (foldl (\<lambda>w' p. console_error (f p) w') w ps) = stderr w @ map f ps"
  "trace (foldl (\<lambda>w' p. console_error (f p) w') w ps) = trace w"
  "files (foldl (\<lambda>w' p. console_error (f p) w') w ps) = files w"
  "cwd (foldl (\<lambda>w' p. console_error (f p) w') w ps) = cwd w"
  by (induction ps arbitrary: w) (simp_all add: console_error_fields)

text \<open>Paths on the sample platform.\<close>

lemma sample_paths:
  "posix_resolve ''/home/dev'' ''/home/dev/my-app'' = ''/home/dev/my-app''"
  "posix_resolve ''/home/dev'' ''my-app'' = ''/home/dev/my-app''"
  "posix_resolve ''/home/dev'' ''NODE_MODULES'' = ''/home/dev/NODE_MODULES''"
  "posix_dirname ''/home/dev/my-app'' = ''/home/dev''"
  "posix_basename ''/home/dev/my-app'' = ''my-app''"
  "posix_basename ''/home/dev/NODE_MODULES'' = ''NODE_MODULES''"
  "posix_join [''/home/dev/my-app'', ''package.json''] = ''/home/dev/my-app/package.json''"
  "posix_join [''/opt/cli/dist'', ''..'', ''template''] = ''/opt/cli/template''"
  by code_simp+

lemma sample_fields:
  "path_resolve sample = posix_resolve" "path_dirname sample = posix_dirname"
  "path_basename sample = posix_basename" "path_join sample = posix_join"
  "string_trim sample = sample_trim"
  "os_EOL sample = ''\<newline>''" "module_dirname sample = ''/opt/cli/dist''"
  "validateProjectName sample = sample_validate"
  "chalk_red sample = (\<lambda>s. s)" "chalk_red_bold sample = (\<lambda>s. s)"
  "access_W_OK sample = (\<lambda>p. None)" "mkdir_recursive sample = (\<lambda>p. None)"
  "readdirSync sample = (\<lambda>p. Inr [])" "chdir sample = (\<lambda>p. None)"
  "writeFileSync sample = (\<lambda>p. None)" "child_close sample = (\<lambda>args. Closes (Some 0))"
  "child_files sample = (\<lambda>args fs. fs)" "glob_files sample = (\<lambda>pattern dir. sample_template)"
  "cpy_error sample = None"
  by (simp_all add: sample_def)

lemma start_fields:
  "files start = Map.empty" "cwd start = ''/home/dev''" "trace start = []" "stderr start = []"
  by (simp_all add: start_def)

text \<open>Copying a list of files leaves the last copy at each destination and every other
  file as it was.\<close>

lemma copy_all_eq: "copy_all copies fs = fs ++ map_of (rev copies)"
proof (induction copies arbitrary: fs)
  case Nil
  show ?case by simp
next
  case (Cons c copies)
  obtain dest data where c: "c = (dest, data)" by (cases c)
  have "copy_all (c # copies) fs = copy_all copies (fs(dest \<mapsto> data))"
    using c by simp
  also have "\<dots> = fs(dest \<mapsto> data) ++ map_of (rev copies)"
    by (rule Cons.IH)
  also have "\<dots> = fs ++ (map_of [(dest, data)] ++ map_of (rev copies))"
    by (rule ext) (simp add: map_add_def split: option.splits)
  also have "\<dots> = fs ++ map_of (rev (c # copies))"
    using c by simp
  finally show ?case .
qed

text \<open>The files a run leaves when every stage before the template copy has succeeded:
  the manifest, what the two children did, and then the copies of the template.\<close>

lemma createApp_files:
  fixes pf :: platform and appPath :: path and w :: world
  defines "root \<equiv> path_resolve pf (cwd w) appPath"
  assumes ok: "list_all (\<lambda>e. \<not> stage_failed pf e) (take 9 (stage_order pf root))"
  shows "files (snd (createApp pf appPath w)) =
     copy_all
       (let copies = map (\<lambda>(source, data). (cpy_destination pf rename root source, data))
                       (glob_files pf ''**'' (path_join pf [module_dirname pf, ''..'', ''template'']))
        in case cpy_error pf of None \<Rightarrow> copies | Some (n, e) \<Rightarrow> take n copies)
       (child_files pf (install_args (Some devDependencies) True)
         (child_files pf (install_args (Some dependencies) False)
           ((files w)(path_join pf [root, ''package.json'']
              \<mapsto> JSON_stringify (packageJson (path_basename pf root)) 2 @ os_EOL pf))))"
proof -
  from ok have a: "access_W_OK pf (path_dirname pf root) = None"
    and b: "mkdir_recursive pf root = None"
    and c: "\<not> isl (readdirSync pf root)"
    and d: "chdir pf root = None"
    and e: "writeFileSync pf (path_join pf [root, ''package.json'']) = None"
    and f: "child_close pf (install_args (Some dependencies) False) \<noteq> Never_closes"
    and g: "exit_code (child_close pf (install_args (Some dependencies) False)) = Some 0"
    and h: "child_close pf (install_args (Some devDependencies) True) \<noteq> Never_closes"
    and i: "exit_code (child_close pf (install_args (Some devDependencies) True)) = Some 0"
    by (simp_all add: stage_order_def eval_nat_numeral)
  from c obtain entries where c': "readdirSync pf root = Inr entries"
    by (cases "readdirSync pf root") simp_all
  from f g have f': "child_close pf (install_args (Some dependencies) False) = Closes (Some 0)"
    by (cases "child_close pf (install_args (Some dependencies) False)") (simp_all add: exit_code_def)
  from h i have h': "child_close pf (install_args (Some devDependencies) True) = Closes (Some 0)"
    by (cases "child_close pf (install_args (Some devDependencies) True)") (simp_all add: exit_code_def)
  note defs = dependencies_nonempty createApp_def prims Let_def root_def
  show ?thesis
  proof (cases "cpy_error pf")
    case None
    with a b c' d e f' h' show ?thesis
      unfolding root_def by (simp add: defs)
  next
    case (Some ne)
    with a b c' d e f' h' show ?thesis
      unfolding root_def by (cases ne) (simp add: defs)
  qed
qed

subsection \<open>install\<close>

text \<open>
  Claim C1, as the code has it: a call of \<open>install\<close> with \<open>null\<close> or with the empty
  array does spawn the package manager, \<open>npm\<close> with an empty argument list, and the
  operation resolves exactly when that child closes with code 0; it rejects with the
  command \<open>npm\<close> followed by one space when the child closes with another code, and
  stays pending when the child never closes.
\<close>

theorem install_without_packages:
  assumes "deps = None \<or> deps = Some []"
  shows "trace (snd (install pf deps dev w))
           = trace w @ Spawn ''npm'' [] spawn_env
                # (case child_close pf [] of Closes code \<Rightarrow> [Child_closed code] | Never_closes \<Rightarrow> [])
       \<and> fst (install pf deps dev w)
           = (case child_close pf [] of
                Closes code \<Rightarrow> if code = Some 0 then Resolved () else Rejected (Command_failed ''npm '')
              | Never_closes \<Rightarrow> Pending)"
  using assms by (auto simp: install_def install_args_def emit_def Let_def split: child.splits)

text \<open>On the sample platform the call with the empty array spawns \<open>npm\<close> and resolves
  when it has closed with code 0.\<close>

theorem install_without_packages_witness:
  "trace (snd (install sample (Some []) True start))
     = [Spawn ''npm'' [] spawn_env, Child_closed (Some 0)]
   \<and> fst (install sample (Some []) True start) = Resolved ()"
  using install_without_packages [of "Some []" sample True start]
  by (simp add: sample_fields start_fields)

text \<open>Claim C1 as stated fails: with a package manager that exits with code 1, the call
  with the empty array spawns a process and is rejected.\<close>

theorem install_empty_counterexample:
  "trace (snd (install npm_fails (Some []) False start))
     = [Spawn ''npm'' [] spawn_env, Child_closed (Some 1)]
   \<and> fst (install npm_fails (Some []) False start) = Rejected (Command_failed ''npm '')"
  by (simp add: install_def install_args_def emit_def npm_fails_def sample_fields start_fields)

text \<open>
  Claim C5, as the code has it: when the child closes with code 0 the operation
  resolves with no value; when it closes with any other code the operation rejects with
  the command line \<open>npm\<close>, a space, and the arguments joined by single spaces. For a
  non-empty array of packages the arguments are \<open>install --save-exact\<close>, then \<open>--save-dev\<close>
  or \<open>--save\<close>, then the package names; for \<open>null\<close> and the empty array there is no
  argument and the command is \<open>npm\<close> followed by one space.
\<close>

theorem install_outcome_by_exit_code:
  assumes "child_close pf (install_args deps dev) = Closes code"
  shows "fst (install pf deps dev w) =
     (if code = Some 0 then Resolved ()
      else Rejected (Command_failed
        (case deps of
           Some (d # ds) \<Rightarrow>
             ''npm install --save-exact '' @ (if dev then ''--save-dev'' else ''--save'')
               @ '' '' @ array_join '' '' (d # ds)
         | _ \<Rightarrow> ''npm '')))"
  using assms
  by (auto simp: install_def install_args_def emit_def Let_def
      split: child.splits option.splits list.splits)

text \<open>The runtime dependencies with a package manager that exits with code 1, and with
  one that exits with code 0.\<close>

theorem install_outcome_by_exit_code_witness:
  "child_close npm_fails (install_args (Some [''react'', ''react-dom'']) False) = Closes (Some 1)
   \<and> fst (install npm_fails (Some [''react'', ''react-dom'']) False start)
       = Rejected (Command_failed ''npm install --save-exact --save react react-dom'')
   \<and> fst (install sample (Some [''react'', ''react-dom'']) False start) = Resolved ()"
  using install_outcome_by_exit_code [of npm_fails "Some [''react'', ''react-dom'']" False "Some 1" start]
    install_outcome_by_exit_code [of sample "Some [''react'', ''react-dom'']" False "Some 0" start]
  by (simp add: npm_fails_def sample_fields)

text \<open>Claim C5 as stated fails for a call without packages: the command of the failure
  is \<open>npm\<close> and a space, with none of the install arguments.\<close>

theorem install_command_counterexample:
  "fst (install npm_fails None True start) = Rejected (Command_failed ''npm '')
   \<and> fst (install npm_fails None True start)
       \<noteq> Rejected (Command_failed ''npm install --save-exact --save-dev'')"
  by (simp add: install_def install_args_def emit_def npm_fails_def sample_fields)

subsection \<open>The scaffold run\<close>

text \<open>
  Claim C2: in every run of \<open>createApp\<close> the platform calls are an initial part of the
  stage order (writability check on the parent, directory creation with its listing and
  the change of directory, manifest write, runtime install, development install,
  template copy); every call but the last one made has succeeded, so nothing runs after a
  failed stage; the development install is spawned only directly after the child of the
  runtime install has closed with code 0; and the run resolves exactly when no stage
  fails.
\<close>

theorem createApp_stage_order:
  "let root = path_resolve pf (cwd w) appPath;
       plan = stage_order pf root;
       t = run_stages pf plan
   in trace (snd (createApp pf appPath w)) = trace w @ t
    \<and> prefix t plan
    \<and> (\<forall>i. Suc i < length t \<longrightarrow> \<not> stage_failed pf (t ! i))
    \<and> (Spawn ''npm'' (install_args (Some devDependencies) True) spawn_env \<in> set t \<longrightarrow>
         (\<exists>rest. t = take 5 plan
                     @ [Spawn ''npm'' (install_args (Some dependencies) False) spawn_env,
                        Child_closed (Some 0),
                        Spawn ''npm'' (install_args (Some devDependencies) True) spawn_env]
                     @ rest))
    \<and> (fst (createApp pf appPath w) = Resolved () \<longleftrightarrow> list_all (\<lambda>e. \<not> stage_failed pf e) plan)"
  unfolding Let_def
  using createApp_run [of pf appPath w] run_stages_prefix [of pf] run_stages_fail_last [of _ pf]
    second_spawn_after_first_close [of pf]
  by blast

text \<open>On the sample platform every stage runs, the second spawn included; with a package
  manager that exits with code 1 the run stops at the close of the first child.\<close>

theorem createApp_stage_order_witness:
  "trace (snd (createApp sample ''/home/dev/my-app'' start)) = stage_order sample ''/home/dev/my-app''
   \<and> Spawn ''npm'' (install_args (Some devDependencies) True) spawn_env
       \<in> set (trace (snd (createApp sample ''/home/dev/my-app'' start)))
   \<and> fst (createApp sample ''/home/dev/my-app'' start) = Resolved ()
   \<and> trace (snd (createApp npm_fails ''/home/dev/my-app'' start))
       = take 7 (stage_order npm_fails ''/home/dev/my-app'')
   \<and> stage_failed npm_fails (stage_order npm_fails ''/home/dev/my-app'' ! 6)
   \<and> fst (createApp npm_fails ''/home/dev/my-app'' start) \<noteq> Resolved ()"
  using createApp_stage_order [of sample start "''/home/dev/my-app''"]
    createApp_stage_order [of npm_fails start "''/home/dev/my-app''"]
  by (simp add: Let_def stage_order_def exit_code_def npm_fails_def sample_fields start_fields
      sample_paths)

text \<open>
  Claim C4: the only file \<open>createApp\<close> writes itself is \<open>package.json\<close> in the root, once,
  in every run that gets as far as the manifest (and not at all in a run that fails
  before); what it writes is the object with the name, version 1.0.0, private true and
  the two scripts, as JSON indented by two spaces, followed by the line ending of the
  platform; and the write replaces whatever the file held.
\<close>

theorem manifest_written_once:
  "let root = path_resolve pf (cwd w) appPath;
       manifest = path_join pf [root, ''package.json''];
       w' = snd (createApp pf appPath w)
   in filter is_write_file (drop (length (trace w)) (trace w')) =
        (if access_W_OK pf (path_dirname pf root) = None \<and> mkdir_recursive pf root = None
            \<and> \<not> isl (readdirSync pf root) \<and> chdir pf root = None
         then [Write_file manifest
                (''{\<newline>  \"name\": '' @ quote (path_basename pf root) @ '',\<newline>''
                 @ ''  \"version\": \"1.0.0\",\<newline>''
                 @ ''  \"private\": true,\<newline>''
                 @ ''  \"scripts\": {\<newline>''
                 @ ''    \"start\": \"parcel '' @ [CHR 0x5C] @ ''\"./public/index.html'' @ [CHR 0x5C] @ ''\" --open -p 3000\",\<newline>''
                 @ ''    \"build\": \"parcel build '' @ [CHR 0x5C] @ ''\"./public/index.html'' @ [CHR 0x5C] @ ''\" --out-dir build\"\<newline>''
                 @ ''  }\<newline>''
                 @ ''}'' @ os_EOL pf)]
         else [])
    \<and> (writeFileSync pf manifest = None \<longrightarrow>
          fst (fs_writeFileSync pf manifest contents w) = Resolved ()
          \<and> files (snd (fs_writeFileSync pf manifest contents w)) = (files w)(manifest \<mapsto> contents))"
  unfolding Let_def
  using createApp_run [of pf appPath w] writes_of_run_stages [of pf "path_resolve pf (cwd w) appPath"]
    manifest_text [of "path_basename pf (path_resolve pf (cwd w) appPath)"]
  by (simp add: fs_writeFileSync_def emit_def)

text \<open>On the sample platform the manifest of \<open>my-app\<close> is written once, and writing the
  manifest over an older file leaves the new contents.\<close>

theorem manifest_written_once_witness:
  "filter is_write_file (trace (snd (createApp sample ''/home/dev/my-app'' start))) =
     [Write_file ''/home/dev/my-app/package.json''
        (''{\<newline>  \"name\": \"my-app\",\<newline>''
         @ ''  \"version\": \"1.0.0\",\<newline>''
         @ ''  \"private\": true,\<newline>''
         @ ''  \"scripts\": {\<newline>''
         @ ''    \"start\": \"parcel '' @ [CHR 0x5C] @ ''\"./public/index.html'' @ [CHR 0x5C] @ ''\" --open -p 3000\",\<newline>''
         @ ''    \"build\": \"parcel build '' @ [CHR 0x5C] @ ''\"./public/index.html'' @ [CHR 0x5C] @ ''\" --out-dir build\"\<newline>''
         @ ''  }\<newline>''
         @ ''}\<newline>'')]
   \<and> files (snd (fs_writeFileSync sample ''/home/dev/my-app/package.json'' ''new''
                (start\<lparr>files := [''/home/dev/my-app/package.json'' \<mapsto> ''old'']\<rparr>)))
       ''/home/dev/my-app/package.json'' = Some ''new''"
  using manifest_written_once [of sample start "''/home/dev/my-app''" "''new''"]
    manifest_written_once [of sample "start\<lparr>files := [''/home/dev/my-app/package.json'' \<mapsto> ''old'']\<rparr>"
      "''/home/dev/my-app''" "''new''"]
  by (simp add: Let_def sample_fields start_fields sample_paths quote_def quote_char_def)

subsection \<open>The writability check\<close>

text \<open>
  Claim C7: \<open>isWriteable\<close> always resolves, with \<open>true\<close> when the access check succeeds and
  with \<open>false\<close> when it fails with whatever error; \<open>createApp\<close> makes the check first, on the
  parent of the root; and when the check fails the process exits with status 1 having
  made no other platform call and with the files and the working directory as they were.
\<close>

theorem isWriteable_never_throws:
  "let root = path_resolve pf (cwd w) appPath;
       parent = path_dirname pf root;
       w' = snd (createApp pf appPath w)
   in fst (isWriteable pf dir w) = Resolved (access_W_OK pf dir = None)
    \<and> prefix (trace w @ [Access parent]) (trace w')
    \<and> (access_W_OK pf parent \<noteq> None \<longrightarrow>
          fst (createApp pf appPath w) = Exited 1
          \<and> trace w' = trace w @ [Access parent]
          \<and> files w' = files w \<and> cwd w' = cwd w)"
proof -
  have 1: "fst (isWriteable pf dir w) = Resolved (access_W_OK pf dir = None)"
    by (simp add: isWriteable_def fs_access_def of_error_def split: option.splits)
  have 2: "prefix (trace w @ [Access (path_dirname pf (path_resolve pf (cwd w) appPath))])
             (trace (snd (createApp pf appPath w)))"
    using createApp_run [of pf appPath w] by (simp add: stage_order_def)
  have 3: "access_W_OK pf (path_dirname pf (path_resolve pf (cwd w) appPath)) \<noteq> None \<Longrightarrow>
        createApp pf appPath w =
          (Exited 1,
           w\<lparr>trace := trace w @ [Access (path_dirname pf (path_resolve pf (cwd w) appPath))],
             stderr := stderr w @
               [''The application path is not writable, please check folder permissions and try again.'',
                ''It is likely you do not have write permissions for this folder.'']\<rparr>)"
    by (auto simp: createApp_def prims Let_def)
  show ?thesis unfolding Let_def using 1 2 3 by auto
qed

text \<open>With a parent that cannot be written to, the check resolves with \<open>false\<close> and the
  whole program exits with status 1 after the access check alone.\<close>

theorem isWriteable_never_throws_witness:
  "access_W_OK unwritable ''/home/dev'' \<noteq> None
   \<and> fst (isWriteable unwritable ''/home/dev'' start) = Resolved False
   \<and> fst (isWriteable sample ''/home/dev'' start) = Resolved True
   \<and> fst (createApp unwritable ''/home/dev/my-app'' start) = Exited 1
   \<and> trace (snd (createApp unwritable ''/home/dev/my-app'' start)) = [Access ''/home/dev'']
   \<and> files (snd (createApp unwritable ''/home/dev/my-app'' start)) = Map.empty
   \<and> fst (exit_status unwritable ''my-app'' start) = Some 1"
proof -
  have u: "path_resolve unwritable = posix_resolve" "path_dirname unwritable = posix_dirname"
    "path_basename unwritable = posix_basename" "validateProjectName unwritable = sample_validate"
    "string_trim unwritable = sample_trim"
    "access_W_OK unwritable = (\<lambda>p. Some ''EACCES'')"
    by (simp_all add: unwritable_def sample_fields)
  have run: "run unwritable ''my-app'' start = createApp unwritable ''/home/dev/my-app'' start"
    by (simp add: run_def sample_trim_def is_ascii_space_def validateNpmName_def sample_validate_def
        u start_fields sample_paths)
  have checks: "fst (isWriteable unwritable ''/home/dev'' start) = Resolved False
      \<and> fst (isWriteable sample ''/home/dev'' start) = Resolved True
      \<and> fst (createApp unwritable ''/home/dev/my-app'' start) = Exited 1
      \<and> trace (snd (createApp unwritable ''/home/dev/my-app'' start)) = [Access ''/home/dev'']
      \<and> files (snd (createApp unwritable ''/home/dev/my-app'' start)) = Map.empty"
    using isWriteable_never_throws [where pf = unwritable and dir = "''/home/dev''" and w = start
          and appPath = "''/home/dev/my-app''"]
      isWriteable_never_throws [where pf = sample and dir = "''/home/dev''" and w = start
          and appPath = "''/home/dev/my-app''"]
    by (simp add: Let_def u sample_fields start_fields sample_paths)
  obtain r w' where res: "createApp unwritable ''/home/dev/my-app'' start = (r, w')"
    by force
  with checks have "r = Exited 1" by simp
  with res have "fst (exit_status unwritable ''my-app'' start) = Some 1"
    by (simp add: exit_status_def run)
  with checks show ?thesis by (simp add: u)
qed

text \<open>
  Claim C9, as the code has it: directly after the recursive \<open>mkdir\<close> the program lists the
  directory, and when the listing is empty the program does not exit there: the empty
  array is truthy, the test \<open>!fs.readdirSync(root)\<close> is false, and the next call is the
  change of working directory into the root.
\<close>


theorem empty_listing_never_halts:
  assumes "access_W_OK pf (path_dirname pf (path_resolve pf (cwd w) appPath)) = None"
    and "mkdir_recursive pf (path_resolve pf (cwd w) appPath) = None"
    and "readdirSync pf (path_resolve pf (cwd w) appPath) = Inr []"
  shows "let root = path_resolve pf (cwd w) appPath in
         fst (createApp pf appPath w) \<noteq> Exited 1
       \<and> prefix (trace w @ [Access (path_dirname pf root), Mkdir root, Readdir root, Chdir root])
           (trace (snd (createApp pf appPath w)))"
  unfolding Let_def
  using assms createApp_run [of pf appPath w 1]
  by (simp add: stage_order_def)

text \<open>On the sample platform the new directory is empty and the run goes on.\<close>

theorem empty_listing_never_halts_witness:
  "readdirSync sample ''/home/dev/my-app'' = Inr []
   \<and> fst (createApp sample ''/home/dev/my-app'' start) \<noteq> Exited 1
   \<and> prefix [Access ''/home/dev'', Mkdir ''/home/dev/my-app'', Readdir ''/home/dev/my-app'',
              Chdir ''/home/dev/my-app'']
        (trace (snd (createApp sample ''/home/dev/my-app'' start)))"
  using empty_listing_never_halts [of sample start "''/home/dev/my-app''"]
  by (simp add: Let_def sample_fields start_fields sample_paths)

text \<open>Claim C9 as stated fails: the listing of the new directory is empty, and the
  program resolves and ends with status 0.\<close>

theorem empty_directory_counterexample:
  "readdirSync sample ''/home/dev/my-app'' = Inr []
   \<and> fst (createApp sample ''/home/dev/my-app'' start) = Resolved ()
   \<and> fst (exit_status sample ''my-app'' start) = Some 0"
proof -
  have run: "run sample ''my-app'' start = createApp sample ''/home/dev/my-app'' start"
    by (simp add: run_def sample_trim_def is_ascii_space_def validateNpmName_def sample_validate_def
        sample_fields start_fields sample_paths)
  have ok: "fst (createApp sample ''/home/dev/my-app'' start) = Resolved ()"
    using createApp_run [of sample "''/home/dev/my-app''" start]
    by (simp add: stage_order_def exit_code_def sample_fields start_fields sample_paths)
  show ?thesis
    using ok by (auto simp: exit_status_def run sample_fields split: prod.splits)
qed

subsection \<open>The project name\<close>

text \<open>
  Claim C6: \<open>validateNpmName\<close> returns \<open>{valid: true}\<close> when the library finds the name
  valid for new packages; otherwise it returns \<open>valid: false\<close> with all the errors of the
  library followed by all its warnings, in their order, and this list is not empty. The
  rules themselves are the library's: the theorem holds for every library whose verdict
  \<open>validForNewPackages\<close> says that it has neither an error nor a warning.
\<close>

theorem validateNpmName_reports_all:
  assumes library: "validForNewPackages (validateProjectName pf name)
                      \<longleftrightarrow> or_empty (errors (validateProjectName pf name)) = []
                          \<and> or_empty (warnings (validateProjectName pf name)) = []"
  shows "(if validForNewPackages (validateProjectName pf name)
          then validateNpmName pf name = \<lparr>valid = True, problems = None\<rparr>
          else validateNpmName pf name =
                 \<lparr>valid = False,
                  problems = Some (or_empty (errors (validateProjectName pf name))
                                   @ or_empty (warnings (validateProjectName pf name)))\<rparr>
               \<and> or_empty (errors (validateProjectName pf name))
                   @ or_empty (warnings (validateProjectName pf name)) \<noteq> [])"
  using library by (simp add: validateNpmName_def Let_def)

text \<open>The sample validator on a reserved name in capitals (one error, one warning) and
  on a good name.\<close>

theorem validateNpmName_reports_all_witness:
  "validateNpmName sample ''NODE_MODULES'' =
     \<lparr>valid = False,
      problems = Some [''node_modules is a blacklisted name'',
                       ''name can no longer contain capital letters'']\<rparr>
   \<and> validateNpmName sample ''my-app'' = \<lparr>valid = True, problems = None\<rparr>"
  using validateNpmName_reports_all [of sample "''NODE_MODULES''"]
    validateNpmName_reports_all [of sample "''my-app''"]
  by (simp add: sample_fields sample_validate_def or_empty_def)

text \<open>
  Claim C8: when the name of the project (the base name of the resolved path of the
  trimmed argument, the trimming being the platform's \<open>trim\<close>) is not
  valid for new packages, \<open>run\<close> writes the heading and then one line for each error and
  each warning, in their order, to standard error and exits with status 1; it has made no
  platform call by then, so no directory exists that did not before, and the files and
  the working directory are as they were.
\<close>

theorem invalid_name_exits_before_mkdir:
  assumes "string_trim pf argument \<noteq> []"
    and "\<not> validForNewPackages
             (validateProjectName pf (path_basename pf (path_resolve pf (cwd w) (string_trim pf argument))))"
  shows "let projectName = path_basename pf (path_resolve pf (cwd w) (string_trim pf argument));
             v = validateProjectName pf projectName;
             w' = snd (run pf argument w)
         in fst (run pf argument w) = Exited 1
          \<and> fst (exit_status pf argument w) = Some 1
          \<and> stderr w' = stderr w @ name_error_header pf projectName
                           # map (name_error_line pf) (or_empty (errors v) @ or_empty (warnings v))
          \<and> trace w' = trace w \<and> files w' = files w \<and> cwd w' = cwd w"
  using assms
  by (simp add: run_def exit_status_def validateNpmName_def Let_def report_lines process_exit_def
      console_error_fields)

text \<open>The name \<open>NODE_MODULES\<close> on the sample platform.\<close>

theorem invalid_name_exits_before_mkdir_witness:
  "string_trim sample ''NODE_MODULES'' \<noteq> []
   \<and> fst (run sample ''NODE_MODULES'' start) = Exited 1
   \<and> fst (exit_status sample ''NODE_MODULES'' start) = Some 1
   \<and> stderr (snd (run sample ''NODE_MODULES'' start)) =
       [''Could not create a project called \"NODE_MODULES\" because of npm naming restrictions:'',
        ''    * node_modules is a blacklisted name'',
        ''    * name can no longer contain capital letters'']
   \<and> trace (snd (run sample ''NODE_MODULES'' start)) = []"
proof -
  have trim: "sample_trim ''NODE_MODULES'' = ''NODE_MODULES''"
    by (simp add: sample_trim_def is_ascii_space_def)
  show ?thesis
    using invalid_name_exits_before_mkdir [where pf = sample and argument = "''NODE_MODULES''"
        and w = start]
    by (simp add: Let_def trim sample_fields start_fields sample_paths sample_validate_def
        or_empty_def name_error_header_def name_error_line_def)
qed

subsection \<open>The rename rules\<close>

text \<open>
  Claim C3: the \<open>rename\<close> option maps exactly the name \<open>gitignore\<close> to \<open>.gitignore\<close>, exactly
  \<open>eslintrc\<close> to \<open>.eslintrc\<close>, exactly \<open>README-template.md\<close> to \<open>README.md\<close> and every other
  name to itself, which is the lookup in the table of the specification; and in a run of
  \<open>createApp\<close> that gets as far as the template copy, every file copied is left below the
  root in the directory it has in the template, under the name this table gives for its
  base name: the files of the run are those before the copy, overridden at each such
  destination by the contents of the (last) file copied there.
\<close>

theorem rename_by_exact_base_name:
  "let root = path_resolve pf (cwd w) appPath;
       new_name = (\<lambda>name. if name = ''gitignore'' then ''.gitignore''
                           else if name = ''eslintrc'' then ''.eslintrc''
                           else if name = ''README-template.md'' then ''README.md''
                           else name);
       copies = map (\<lambda>(source, data).
                       (path_join pf [root, path_dirname pf source, new_name (path_basename pf source)],
                        data))
                  (glob_files pf ''**'' (path_join pf [module_dirname pf, ''..'', ''template'']));
       copied = (case cpy_error pf of None \<Rightarrow> copies | Some (n, e) \<Rightarrow> take n copies);
       before_copy =
         child_files pf (install_args (Some devDependencies) True)
           (child_files pf (install_args (Some dependencies) False)
             ((files w)(path_join pf [root, ''package.json'']
                \<mapsto> JSON_stringify (packageJson (path_basename pf root)) 2 @ os_EOL pf)))
   in rename name = new_name name
    \<and> rename name = apply_rename_rules name
    \<and> cpy_destination pf rename destination source
        = path_join pf [destination, path_dirname pf source,
                        apply_rename_rules (path_basename pf source)]
    \<and> (list_all (\<lambda>e. \<not> stage_failed pf e) (take 9 (stage_order pf root)) \<longrightarrow>
          files (snd (createApp pf appPath w)) = before_copy ++ map_of (rev copied))"
proof -
  let ?root = "path_resolve pf (cwd w) appPath"
  have r: "rename = (\<lambda>name. if name = ''gitignore'' then ''.gitignore''
                           else if name = ''eslintrc'' then ''.eslintrc''
                           else if name = ''README-template.md'' then ''README.md''
                           else name)"
    by (rule ext) (simp add: rename_def)
  have 1: "rename name = (if name = ''gitignore'' then ''.gitignore''
                          else if name = ''eslintrc'' then ''.eslintrc''
                          else if name = ''README-template.md'' then ''README.md''
                          else name)"
    by (simp add: rename_def)
  have 2: "rename name = apply_rename_rules name"
    by (simp add: rename_def apply_rename_rules_def rename_rules_def)
  have 3: "cpy_destination pf rename destination source
        = path_join pf [destination, path_dirname pf source,
                        apply_rename_rules (path_basename pf source)]"
    by (simp add: cpy_destination_def rename_def apply_rename_rules_def rename_rules_def)
  have 4: "files (snd (createApp pf appPath w)) =
      child_files pf (install_args (Some devDependencies) True)
        (child_files pf (install_args (Some dependencies) False)
          ((files w)(path_join pf [?root, ''package.json'']
             \<mapsto> JSON_stringify (packageJson (path_basename pf ?root)) 2 @ os_EOL pf)))
      ++ map_of (rev (case cpy_error pf of
           None \<Rightarrow>
             map (\<lambda>(source, data).
                    (path_join pf [?root, path_dirname pf source,
                       (if path_basename pf source = ''gitignore'' then ''.gitignore''
                        else if path_basename pf source = ''eslintrc'' then ''.eslintrc''
                        else if path_basename pf source = ''README-template.md'' then ''README.md''
                        else path_basename pf source)],
                     data))
               (glob_files pf ''**'' (path_join pf [module_dirname pf, ''..'', ''template'']))
         | Some (n, e) \<Rightarrow>
             take n
               (map (\<lambda>(source, data).
                    (path_join pf [?root, path_dirname pf source,
                       (if path_basename pf source = ''gitignore'' then ''.gitignore''
                        else if path_basename pf source = ''eslintrc'' then ''.eslintrc''
                        else if path_basename pf source = ''README-template.md'' then ''README.md''
                        else path_basename pf source)],
                     data))
               (glob_files pf ''**'' (path_join pf [module_dirname pf, ''..'', ''template''])))))"
    if ok: "list_all (\<lambda>e. \<not> stage_failed pf e) (take 9 (stage_order pf ?root))"
    using createApp_files [OF ok]
    unfolding copy_all_eq cpy_destination_def Let_def r .
  show ?thesis
    unfolding Let_def using 1 2 3 4 by (intro conjI impI)
qed

text \<open>A run on the sample platform leaves the three files of the table under their new
  names and not under the old ones, and the file in \<open>public\<close> where it was; a name with an
  extension, and a directory that bears a name of the table, are not renamed.\<close>

theorem rename_by_exact_base_name_witness:
  "files (snd (createApp sample ''/home/dev/my-app'' start)) ''/home/dev/my-app/.gitignore''
     = Some ''node_modules''
   \<and> files (snd (createApp sample ''/home/dev/my-app'' start)) ''/home/dev/my-app/.eslintrc''
       = Some ''{}''
   \<and> files (snd (createApp sample ''/home/dev/my-app'' start)) ''/home/dev/my-app/README.md''
       = Some ''# App''
   \<and> files (snd (createApp sample ''/home/dev/my-app'' start)) ''/home/dev/my-app/public/index.html''
       = Some ''<html></html>''
   \<and> files (snd (createApp sample ''/home/dev/my-app'' start)) ''/home/dev/my-app/gitignore'' = None
   \<and> files (snd (createApp sample ''/home/dev/my-app'' start)) ''/home/dev/my-app/eslintrc'' = None
   \<and> files (snd (createApp sample ''/home/dev/my-app'' start)) ''/home/dev/my-app/README-template.md''
       = None
   \<and> rename ''gitignore.txt'' = ''gitignore.txt''
   \<and> cpy_destination sample rename ''/home/dev/my-app'' ''gitignore/index.html''
       = ''/home/dev/my-app/gitignore/index.html''"
proof -
  have p: "posix_join [''/home/dev/my-app'', posix_dirname ''gitignore/index.html'', ''index.html'']
             = ''/home/dev/my-app/gitignore/index.html''"
    "posix_basename ''gitignore/index.html'' = ''index.html''"
    "posix_dirname ''gitignore'' = ''.''" "posix_basename ''gitignore'' = ''gitignore''"
    "posix_dirname ''eslintrc'' = ''.''" "posix_basename ''eslintrc'' = ''eslintrc''"
    "posix_dirname ''README-template.md'' = ''.''"
    "posix_basename ''README-template.md'' = ''README-template.md''"
    "posix_dirname ''public/index.html'' = ''public''"
    "posix_basename ''public/index.html'' = ''index.html''"
    "posix_join [''/home/dev/my-app'', ''.'', ''.gitignore''] = ''/home/dev/my-app/.gitignore''"
    "posix_join [''/home/dev/my-app'', ''.'', ''.eslintrc''] = ''/home/dev/my-app/.eslintrc''"
    "posix_join [''/home/dev/my-app'', ''.'', ''README.md''] = ''/home/dev/my-app/README.md''"
    "posix_join [''/home/dev/my-app'', ''public'', ''index.html'']
       = ''/home/dev/my-app/public/index.html''"
    by code_simp+
  have ok: "list_all (\<lambda>e. \<not> stage_failed sample e) (take 9 (stage_order sample ''/home/dev/my-app''))"
    by (simp add: stage_order_def exit_code_def sample_fields eval_nat_numeral)
  show ?thesis
    using rename_by_exact_base_name [where pf = sample and w = start and appPath = "''/home/dev/my-app''"
        and name = "''gitignore.txt''" and destination = "''/home/dev/my-app''"
        and source = "''gitignore/index.html''"] ok
    by (simp add: Let_def sample_fields start_fields sample_paths sample_template_def p
        apply_rename_rules_def rename_rules_def map_add_def)
qed

text \<open>
  Claim C10: renaming is idempotent, because what \<open>rename\<close> returns is never a key of the
  rule table.
\<close>

theorem rename_idempotent:
  "rename (rename name) = rename name \<and> map_of rename_rules (rename name) = None"
  by (simp add: rename_def rename_rules_def)

text \<open>Renaming \<open>gitignore\<close> twice.\<close>

theorem rename_idempotent_witness:
  "rename (rename ''gitignore'') = ''.gitignore'' \<and> map_of rename_rules ''.gitignore'' = None"
  using rename_idempotent [of "''gitignore''"]
  by (simp add: rename_def)


end
